theory Spec2Isabelle
  imports Main "HOL-Library.Word"
begin

section \<open>Data model\<close>

text \<open>
  The embedding follows \<^verbatim>\<open>horovod/common/ops/mpi_operations.cc\<close> and its header.
  C integers are machine words: \<^verbatim>\<open>int\<close> is 32 bits wide, \<^verbatim>\<open>int64_t\<close> 64 bits.
  A \<^verbatim>\<open>void*\<close> is an address, with \<open>0\<close> for \<^verbatim>\<open>nullptr\<close>.
\<close>

type_synonym c_int = "32 word"
type_synonym int64_t = "64 word"
type_synonym pointer = nat

abbreviation nullptr :: pointer where
  "nullptr \<equiv> 0"

text \<open>
  The enumeration \<^verbatim>\<open>DataType\<close> is declared outside the two source files. Its
  enumerators here are the case labels of the switch in \<^verbatim>\<open>GetMPIDataType\<close>; a value of
  the enumeration type that is none of them (what reaches the \<^verbatim>\<open>default\<close> label) is
  \<open>HOROVOD_unlisted\<close> with its number.
\<close>

datatype DataType =
    HOROVOD_UINT8
  | HOROVOD_INT8
  | HOROVOD_UINT16
  | HOROVOD_INT16
  | HOROVOD_INT32
  | HOROVOD_INT64
  | HOROVOD_FLOAT16
  | HOROVOD_FLOAT32
  | HOROVOD_FLOAT64
  | HOROVOD_BOOL
  | HOROVOD_BYTE
  | HOROVOD_NULL
  | HOROVOD_unlisted int

text \<open>
  \<^verbatim>\<open>CommunicationContext::Communicator\<close>, likewise declared elsewhere: the three case
  labels of the switch in \<^verbatim>\<open>GetMPICommunicator\<close>, and any other value of the type.
\<close>

datatype Communicator =
    GLOBAL
  | LOCAL
  | CROSS
  | Communicator_unlisted int

text \<open>
  Handles of the MPI library. The predefined datatypes and \<^verbatim>\<open>MPI_SUM\<close> are the constants
  of \<^verbatim>\<open>mpi.h\<close> the source names; a handle the program obtained from the library at run
  time (a committed datatype, a created operator, a communicator, a window) carries a
  number.
\<close>

datatype MPI_Datatype =
    MPI_UINT8_T
  | MPI_INT8_T
  | MPI_UINT16_T
  | MPI_INT16_T
  | MPI_INT32_T
  | MPI_INT64_T
  | MPI_FLOAT
  | MPI_DOUBLE
  | MPI_C_BOOL
  | MPI_BYTE
  | MPI_DATATYPE_NULL
  | MPI_Datatype_handle nat

datatype MPI_Op = MPI_SUM | MPI_Op_handle nat

datatype MPI_Comm = MPI_Comm_handle nat

datatype MPI_Win = MPI_WIN_NULL | MPI_Win_handle nat

text \<open>
  A send buffer as the library receives it: the constant \<^verbatim>\<open>MPI_IN_PLACE\<close>, or the
  address of a buffer of the caller.
\<close>

datatype MPI_sendbuf = MPI_IN_PLACE | MPI_buffer pointer

text \<open>
  \<^verbatim>\<open>Tensor\<close> and \<^verbatim>\<open>TensorTableEntry\<close> are declared elsewhere; the source reads
  \<^verbatim>\<open>tensor->dtype()\<close>, \<^verbatim>\<open>tensor->data()\<close>, \<^verbatim>\<open>entry.tensor\<close> and \<^verbatim>\<open>entry.output\<close>,
  and nothing else of them.
\<close>

record Tensor =
  Tensor_dtype :: DataType
  Tensor_data :: pointer

record TensorTableEntry =
  tensor :: Tensor
  "output" :: Tensor

text \<open>
  The members of \<^verbatim>\<open>MPIContext\<close> that the operations read or write. (The message queue
  and the message table of the class are not touched by any function of the file.)
\<close>

record MPIContext =
  mpi_float16_t :: MPI_Datatype
  mpi_float16_sum :: MPI_Op
  mpi_comm :: MPI_Comm
  local_comm :: MPI_Comm
  cross_comm :: MPI_Comm
  window :: MPI_Win

text \<open>The names of the timeline activities (macros of the code base).\<close>

datatype activity = MPI_ALLREDUCE | MPI_ALLGATHER | MPI_CROSS_ALLGATHER | MPI_BCAST

text \<open>
  What the program does to the outside world, in order: every call into the MPI library
  with its arguments, and every call into the timeline.
\<close>

datatype event =
    MPI_Allreduce MPI_sendbuf pointer c_int MPI_Datatype MPI_Op MPI_Comm
  | MPI_Allgatherv MPI_sendbuf c_int MPI_Datatype pointer "c_int list" "c_int list"
      MPI_Datatype MPI_Comm
  | MPI_Bcast pointer c_int MPI_Datatype c_int MPI_Comm
  | MPI_Barrier MPI_Comm
  | MPI_Win_allocate_shared int64_t c_int MPI_Comm pointer
  | MPI_Win_fence c_int MPI_Win
  | MPI_Win_free MPI_Win
  | MPI_Win_shared_query MPI_Win c_int pointer
  | MPI_Type_size MPI_Datatype pointer
  | ActivityStartAll "TensorTableEntry list" activity
  | ActivityEndAll "TensorTableEntry list"
  | RecordEventStart activity "TensorTableEntry list"
  | RecordEventEnd activity "TensorTableEntry list"

text \<open>
  The parts of the system the source calls and does not define, as parameters:
  the two name functions used in error messages, the status the MPI library returns
  for a call (it may depend on everything that happened before), and the window handle
  the library stores through the \<^verbatim>\<open>MPI_Win*\<close> argument of a call.
\<close>

record environment =
  DataType_Name :: "DataType \<Rightarrow> string"
  CommunicatorName :: "Communicator \<Rightarrow> string"
  MPI_return :: "event list \<Rightarrow> event \<Rightarrow> c_int"
  MPI_window_out :: "event list \<Rightarrow> event \<Rightarrow> MPI_Win"

definition MPI_SUCCESS :: c_int where
  "MPI_SUCCESS = 0"

text \<open>
  A C++ exception is a value: \<^verbatim>\<open>std::logic_error\<close> with its message. Indexing an empty
  \<^verbatim>\<open>std::vector\<close> has no defined behaviour; the model gives it a result of its own.
\<close>

datatype failure = logic_error string | undefined_behaviour string

text \<open>The state: the context object and the history of events.\<close>

record state =
  mpi_ctx :: MPIContext
  events :: "event list"

section \<open>Resolving datatypes and communicators\<close>

definition GetMPIDataType :: "environment \<Rightarrow> MPIContext \<Rightarrow> DataType \<Rightarrow> failure + MPI_Datatype" where
  "GetMPIDataType env ctx dtype =
     (case dtype of
        HOROVOD_UINT8 \<Rightarrow> Inr MPI_UINT8_T
      | HOROVOD_INT8 \<Rightarrow> Inr MPI_INT8_T
      | HOROVOD_UINT16 \<Rightarrow> Inr MPI_UINT16_T
      | HOROVOD_INT16 \<Rightarrow> Inr MPI_INT16_T
      | HOROVOD_INT32 \<Rightarrow> Inr MPI_INT32_T
      | HOROVOD_INT64 \<Rightarrow> Inr MPI_INT64_T
      | HOROVOD_FLOAT16 \<Rightarrow> Inr (mpi_float16_t ctx)
      | HOROVOD_FLOAT32 \<Rightarrow> Inr MPI_FLOAT
      | HOROVOD_FLOAT64 \<Rightarrow> Inr MPI_DOUBLE
      | HOROVOD_BOOL \<Rightarrow> Inr MPI_C_BOOL
      | HOROVOD_BYTE \<Rightarrow> Inr MPI_BYTE
      | HOROVOD_NULL \<Rightarrow> Inr MPI_DATATYPE_NULL
      | _ \<Rightarrow> Inl (logic_error (''Type '' @ DataType_Name env dtype @
                 '' is not supported in MPI mode.'')))"

text \<open>The overload that takes the tensor.\<close>

definition GetMPIDataType_Tensor :: "environment \<Rightarrow> MPIContext \<Rightarrow> Tensor \<Rightarrow> failure + MPI_Datatype" where
  "GetMPIDataType_Tensor env ctx t = GetMPIDataType env ctx (Tensor_dtype t)"

definition GetMPICommunicator :: "environment \<Rightarrow> MPIContext \<Rightarrow> Communicator \<Rightarrow> failure + MPI_Comm" where
  "GetMPICommunicator env ctx comm =
     (case comm of
        GLOBAL \<Rightarrow> Inr (mpi_comm ctx)
      | LOCAL \<Rightarrow> Inr (local_comm ctx)
      | CROSS \<Rightarrow> Inr (cross_comm ctx)
      | _ \<Rightarrow> Inl (logic_error (''Communicator '' @ CommunicatorName env comm @
                 '' is not supported in MPI mode.'')))"

section \<open>The primitives of \<^verbatim>\<open>MPIContext\<close>\<close>

text \<open>
  A call into the MPI library is appended to the history and returns the status the
  library gives it. A call into the timeline is appended to the history.
\<close>

definition MPI_call :: "environment \<Rightarrow> event \<Rightarrow> state \<Rightarrow> c_int \<times> state" where
  "MPI_call env call s = (MPI_return env (events s) call, s\<lparr>events := events s @ [call]\<rparr>)"

definition timeline_call :: "event \<Rightarrow> state \<Rightarrow> state" where
  "timeline_call ev s = s\<lparr>events := events s @ [ev]\<rparr>"

text \<open>
  The arguments of a call are evaluated before the call: when resolving a datatype or a
  communicator throws, the library is not called. (C++ leaves the order in which the
  arguments are evaluated open; the model resolves the datatypes first. Only which of
  two exceptions is seen depends on it.)
\<close>

definition Allreduce ::
  "environment \<Rightarrow> pointer \<Rightarrow> int64_t \<Rightarrow> TensorTableEntry \<Rightarrow> pointer \<Rightarrow> Communicator \<Rightarrow>
   state \<Rightarrow> (failure + unit) \<times> state" where
  "Allreduce env buffer_data num_elements first_entry sendbuff comm s =
     (case GetMPIDataType_Tensor env (mpi_ctx s) (tensor first_entry) of
        Inl e \<Rightarrow> (Inl e, s)
      | Inr mpi_type \<Rightarrow>
          (case GetMPICommunicator env (mpi_ctx s) comm of
             Inl e \<Rightarrow> (Inl e, s)
           | Inr mpi_c \<Rightarrow>
               (case MPI_call env
                       (MPI_Allreduce
                          (if sendbuff \<noteq> nullptr then MPI_buffer sendbuff else MPI_IN_PLACE)
                          buffer_data
                          (ucast num_elements)
                          mpi_type
                          (if Tensor_dtype (tensor first_entry) = HOROVOD_FLOAT16
                           then mpi_float16_sum (mpi_ctx s) else MPI_SUM)
                          mpi_c) s of
                  (op, s') \<Rightarrow>
                    if op \<noteq> MPI_SUCCESS
                    then (Inl (logic_error ''MPI_Allreduce failed, see MPI output for details.''), s')
                    else (Inr (), s'))))"

definition Allgatherv ::
  "environment \<Rightarrow> pointer \<Rightarrow> c_int \<Rightarrow> DataType \<Rightarrow> pointer \<Rightarrow> c_int list \<Rightarrow> c_int list \<Rightarrow>
   DataType \<Rightarrow> Communicator \<Rightarrow> state \<Rightarrow> (failure + unit) \<times> state" where
  "Allgatherv env sendbuf sendcount sendtype recvbuf recvcounts displs recvtype comm s =
     (case GetMPIDataType env (mpi_ctx s) sendtype of
        Inl e \<Rightarrow> (Inl e, s)
      | Inr mpi_sendtype \<Rightarrow>
          (case GetMPIDataType env (mpi_ctx s) recvtype of
             Inl e \<Rightarrow> (Inl e, s)
           | Inr mpi_recvtype \<Rightarrow>
               (case GetMPICommunicator env (mpi_ctx s) comm of
                  Inl e \<Rightarrow> (Inl e, s)
                | Inr mpi_c \<Rightarrow>
                    (case MPI_call env
                            (MPI_Allgatherv
                               (if sendbuf \<noteq> nullptr then MPI_buffer sendbuf else MPI_IN_PLACE)
                               sendcount mpi_sendtype recvbuf recvcounts displs mpi_recvtype
                               mpi_c) s of
                       (op, s') \<Rightarrow>
                         if op \<noteq> MPI_SUCCESS
                         then (Inl (logic_error ''MPI_Allgatherv failed, see MPI output for details.''), s')
                         else (Inr (), s')))))"

definition Broadcast ::
  "environment \<Rightarrow> pointer \<Rightarrow> int64_t \<Rightarrow> DataType \<Rightarrow> c_int \<Rightarrow> Communicator \<Rightarrow>
   state \<Rightarrow> (failure + unit) \<times> state" where
  "Broadcast env buffer_data num_elements dtype root_rank comm s =
     (case GetMPIDataType env (mpi_ctx s) dtype of
        Inl e \<Rightarrow> (Inl e, s)
      | Inr mpi_type \<Rightarrow>
          (case GetMPICommunicator env (mpi_ctx s) comm of
             Inl e \<Rightarrow> (Inl e, s)
           | Inr mpi_c \<Rightarrow>
               (case MPI_call env
                       (MPI_Bcast buffer_data (ucast num_elements) mpi_type root_rank mpi_c) s of
                  (op, s') \<Rightarrow>
                    if op \<noteq> MPI_SUCCESS
                    then (Inl (logic_error ''MPI_Broadcast failed, see MPI output for details.''), s')
                    else (Inr (), s'))))"

definition Barrier :: "environment \<Rightarrow> Communicator \<Rightarrow> state \<Rightarrow> (failure + unit) \<times> state" where
  "Barrier env comm s =
     (case GetMPICommunicator env (mpi_ctx s) comm of
        Inl e \<Rightarrow> (Inl e, s)
      | Inr mpi_c \<Rightarrow>
          (case MPI_call env (MPI_Barrier mpi_c) s of
             (op, s') \<Rightarrow>
               if op \<noteq> MPI_SUCCESS
               then (Inl (logic_error ''MPI_Barrier failed, see MPI output for details.''), s')
               else (Inr (), s')))"

text \<open>
  The three operations on the shared window call the library and drop the status it
  returns. \<^verbatim>\<open>MPI_Win_allocate_shared\<close> and \<^verbatim>\<open>MPI_Win_free\<close> write the member
  \<^verbatim>\<open>window\<close> through the pointer they are given. (The constant \<^verbatim>\<open>MPI_INFO_NULL\<close> and
  the addresses of the two locals of \<^verbatim>\<open>QuerySharedBuffer\<close> are left out of the events.)
\<close>

definition AllocateSharedBuffer ::
  "environment \<Rightarrow> int64_t \<Rightarrow> c_int \<Rightarrow> pointer \<Rightarrow> Communicator \<Rightarrow> state \<Rightarrow>
   (failure + unit) \<times> state" where
  "AllocateSharedBuffer env window_size element_size baseptr comm s =
     (case GetMPICommunicator env (mpi_ctx s) comm of
        Inl e \<Rightarrow> (Inl e, s)
      | Inr mpi_c \<Rightarrow>
          (let call = MPI_Win_allocate_shared window_size element_size mpi_c baseptr in
           case MPI_call env call s of
             (op, s') \<Rightarrow>
               (Inr (), s'\<lparr>mpi_ctx := (mpi_ctx s')\<lparr>window := MPI_window_out env (events s) call\<rparr>\<rparr>)))"

definition FreeSharedBuffer :: "environment \<Rightarrow> state \<Rightarrow> (failure + unit) \<times> state" where
  "FreeSharedBuffer env s =
     (case MPI_call env (MPI_Win_fence 0 (window (mpi_ctx s))) s of
        (op1, s1) \<Rightarrow>
          (let call = MPI_Win_free (window (mpi_ctx s1)) in
           case MPI_call env call s1 of
             (op2, s2) \<Rightarrow>
               (Inr (), s2\<lparr>mpi_ctx := (mpi_ctx s2)\<lparr>window := MPI_window_out env (events s1) call\<rparr>\<rparr>)))"

definition QuerySharedBuffer ::
  "environment \<Rightarrow> c_int \<Rightarrow> pointer \<Rightarrow> state \<Rightarrow> (failure + unit) \<times> state" where
  "QuerySharedBuffer env rank baseptr s =
     (case MPI_call env (MPI_Win_shared_query (window (mpi_ctx s)) rank baseptr) s of
        (op, s') \<Rightarrow> (Inr (), s'))"

definition GetTypeSize ::
  "environment \<Rightarrow> DataType \<Rightarrow> pointer \<Rightarrow> state \<Rightarrow> (failure + unit) \<times> state" where
  "GetTypeSize env dtype out s =
     (case GetMPIDataType env (mpi_ctx s) dtype of
        Inl e \<Rightarrow> (Inl e, s)
      | Inr mpi_type \<Rightarrow>
          (case MPI_call env (MPI_Type_size mpi_type out) s of
             (op, s') \<Rightarrow> (Inr (), s')))"

section \<open>The dispatchers\<close>

text \<open>
  \<^verbatim>\<open>entries[0]\<close> needs a first entry. With the send buffer chosen, the reduction goes
  to the context, on the scope \<open>GLOBAL\<close>.
\<close>

definition DoMPIAllreduce ::
  "environment \<Rightarrow> TensorTableEntry list \<Rightarrow> pointer \<Rightarrow> int64_t \<Rightarrow> nat \<Rightarrow> state \<Rightarrow>
   (failure + unit) \<times> state" where
  "DoMPIAllreduce env entries buffer_data num_elements buffer_len s =
     (case entries of
        [] \<Rightarrow> (Inl (undefined_behaviour ''entries[0]''), s)
      | first_entry # _ \<Rightarrow>
          (let sendbuf =
                 (if length entries > 1 \<or>
                     Tensor_data (tensor first_entry) = Tensor_data (output first_entry)
                  then nullptr else Tensor_data (tensor first_entry))
           in Allreduce env buffer_data num_elements first_entry sendbuf GLOBAL s))"

text \<open>
  Modelled from the spec: the tuning configuration (\<^verbatim>\<open>ParameterManager\<close>, declared
  elsewhere) exposes a boolean, runtime-adjustable setting "hierarchical allgather
  enabled", which \<^verbatim>\<open>param_manager.HierarchicalAllgather()\<close> reads.
\<close>

record ParameterManager =
  HierarchicalAllgather :: bool

text \<open>
  Of \<^verbatim>\<open>HorovodGlobalState\<close> (declared elsewhere) the source reads two members of the
  calling rank; its timeline is part of the history of events.
\<close>

record HorovodGlobalState =
  is_homogeneous :: bool
  local_rank :: c_int

definition MPIAllreduce_Enabled :: "ParameterManager \<Rightarrow> TensorTableEntry list \<Rightarrow> 'response \<Rightarrow> bool" where
  "MPIAllreduce_Enabled param_manager entries response = True"

definition MPIAllgather_Enabled :: "ParameterManager \<Rightarrow> TensorTableEntry list \<Rightarrow> 'response \<Rightarrow> bool" where
  "MPIAllgather_Enabled param_manager entries response = True"

definition MPIHierarchicalAllgather_Enabled ::
  "ParameterManager \<Rightarrow> TensorTableEntry list \<Rightarrow> 'response \<Rightarrow> bool" where
  "MPIHierarchicalAllgather_Enabled param_manager entries response =
     HierarchicalAllgather param_manager"

definition MPIBroadcast_Enabled :: "ParameterManager \<Rightarrow> TensorTableEntry list \<Rightarrow> 'response \<Rightarrow> bool" where
  "MPIBroadcast_Enabled param_manager entries response = True"

text \<open>
  The dispatchers hold pointers to the context (\<^verbatim>\<open>mpi_context_\<close>, and \<^verbatim>\<open>comm_context_\<close>
  of the base class); both stand for the one \<^verbatim>\<open>MPIContext\<close> of the state. An exception
  of a step ends the function there: what follows the step is not executed.
\<close>

definition MPIAllreduce_DoAllreduce ::
  "environment \<Rightarrow> TensorTableEntry list \<Rightarrow> pointer \<Rightarrow> pointer \<Rightarrow> int64_t \<Rightarrow> nat \<Rightarrow> state \<Rightarrow>
   (failure + unit) \<times> state" where
  "MPIAllreduce_DoAllreduce env entries fused_input_data buffer_data num_elements buffer_len s =
     (case DoMPIAllreduce env entries buffer_data num_elements buffer_len
             (timeline_call (RecordEventStart MPI_ALLREDUCE entries) s) of
        (Inl e, s') \<Rightarrow> (Inl e, s')
      | (Inr _, s') \<Rightarrow> (Inr (), timeline_call (RecordEventEnd MPI_ALLREDUCE entries) s'))"

definition MPIAllgather_DoAllgatherv ::
  "environment \<Rightarrow> TensorTableEntry list \<Rightarrow> pointer \<Rightarrow> c_int \<Rightarrow> DataType \<Rightarrow> pointer \<Rightarrow>
   c_int list \<Rightarrow> c_int list \<Rightarrow> DataType \<Rightarrow> state \<Rightarrow> (failure + unit) \<times> state" where
  "MPIAllgather_DoAllgatherv env entries sendbuf sendcount sendtype recvbuf recvcounts displs
       recvtype s =
     (case Allgatherv env sendbuf sendcount sendtype recvbuf recvcounts displs recvtype GLOBAL
             (timeline_call (ActivityStartAll entries MPI_ALLGATHER) s) of
        (Inl e, s') \<Rightarrow> (Inl e, s')
      | (Inr _, s') \<Rightarrow> (Inr (), timeline_call (ActivityEndAll entries) s'))"

definition MPIHierarchicalAllgather_DoAllgatherv ::
  "environment \<Rightarrow> HorovodGlobalState \<Rightarrow> TensorTableEntry list \<Rightarrow> pointer \<Rightarrow> c_int \<Rightarrow>
   DataType \<Rightarrow> pointer \<Rightarrow> c_int list \<Rightarrow> c_int list \<Rightarrow> DataType \<Rightarrow> state \<Rightarrow>
   (failure + unit) \<times> state" where
  "MPIHierarchicalAllgather_DoAllgatherv env global_state entries sendbuf sendcount sendtype
       recvbuf recvcounts displs recvtype s =
     (let s0 = timeline_call (ActivityStartAll entries MPI_CROSS_ALLGATHER) s in
      case (if is_homogeneous global_state \<or> local_rank global_state = 0
            then Allgatherv env sendbuf sendcount sendtype recvbuf recvcounts displs recvtype
                   CROSS s0
            else (Inr (), s0)) of
        (Inl e, s1) \<Rightarrow> (Inl e, s1)
      | (Inr _, s1) \<Rightarrow>
          (case Barrier env GLOBAL s1 of
             (Inl e, s2) \<Rightarrow> (Inl e, s2)
           | (Inr _, s2) \<Rightarrow> (Inr (), timeline_call (ActivityEndAll entries) s2)))"

definition MPIBroadcast_DoBroadcast ::
  "environment \<Rightarrow> TensorTableEntry list \<Rightarrow> pointer \<Rightarrow> int64_t \<Rightarrow> DataType \<Rightarrow> c_int \<Rightarrow>
   state \<Rightarrow> (failure + unit) \<times> state" where
  "MPIBroadcast_DoBroadcast env entries buffer_data num_elements dtype root_rank s =
     (case Broadcast env buffer_data num_elements dtype root_rank GLOBAL
             (timeline_call (ActivityStartAll entries MPI_BCAST) s) of
        (Inl e, s') \<Rightarrow> (Inl e, s')
      | (Inr _, s') \<Rightarrow> (Inr (), timeline_call (ActivityEndAll entries) s'))"

section \<open>Reading the history\<close>

text \<open>Which events are calls of the cross-node gather, and which are barriers.\<close>

definition is_MPI_Allgatherv :: "event \<Rightarrow> bool" where
  "is_MPI_Allgatherv ev = (case ev of MPI_Allgatherv _ _ _ _ _ _ _ _ \<Rightarrow> True | _ \<Rightarrow> False)"

definition is_MPI_Barrier :: "event \<Rightarrow> bool" where
  "is_MPI_Barrier ev = (case ev of MPI_Barrier _ \<Rightarrow> True | _ \<Rightarrow> False)"

section \<open>Concrete values\<close>

text \<open>
  A context as initialisation leaves it, a library that reports success for every call,
  and one that reports the error status 16 for every call. They are the inputs at which
  the theorems below are evaluated.
\<close>

definition example_ctx :: MPIContext where
  "example_ctx =
     \<lparr>mpi_float16_t = MPI_Datatype_handle 1, mpi_float16_sum = MPI_Op_handle 1,
      mpi_comm = MPI_Comm_handle 1, local_comm = MPI_Comm_handle 2,
      cross_comm = MPI_Comm_handle 3, window = MPI_Win_handle 1\<rparr>"

definition example_state :: state where
  "example_state = \<lparr>mpi_ctx = example_ctx, events = []\<rparr>"

definition example_DataType_Name :: "DataType \<Rightarrow> string" where
  "example_DataType_Name dtype =
     (case dtype of HOROVOD_FLOAT16 \<Rightarrow> ''float16'' | HOROVOD_FLOAT32 \<Rightarrow> ''float32''
      | HOROVOD_NULL \<Rightarrow> ''null'' | _ \<Rightarrow> ''<unknown>'')"

definition example_CommunicatorName :: "Communicator \<Rightarrow> string" where
  "example_CommunicatorName comm =
     (case comm of GLOBAL \<Rightarrow> ''global'' | LOCAL \<Rightarrow> ''local'' | CROSS \<Rightarrow> ''cross''
      | _ \<Rightarrow> ''<unknown>'')"

definition working_env :: environment where
  "working_env =
     \<lparr>DataType_Name = example_DataType_Name, CommunicatorName = example_CommunicatorName,
      MPI_return = (\<lambda>history call. MPI_SUCCESS),
      MPI_window_out = (\<lambda>history call.
         case call of MPI_Win_free w \<Rightarrow> MPI_WIN_NULL | _ \<Rightarrow> MPI_Win_handle (Suc (length history)))\<rparr>"

definition failing_env :: environment where
  "failing_env = working_env\<lparr>MPI_return := (\<lambda>history call. 16)\<rparr>"

definition example_entry :: TensorTableEntry where
  "example_entry =
     \<lparr>tensor = \<lparr>Tensor_dtype = HOROVOD_FLOAT32, Tensor_data = 4096\<rparr>,
      output = \<lparr>Tensor_dtype = HOROVOD_FLOAT32, Tensor_data = 8192\<rparr>\<rparr>"

definition example_float16_entry :: TensorTableEntry where
  "example_float16_entry =
     \<lparr>tensor = \<lparr>Tensor_dtype = HOROVOD_FLOAT16, Tensor_data = 4096\<rparr>,
      output = \<lparr>Tensor_dtype = HOROVOD_FLOAT16, Tensor_data = 4096\<rparr>\<rparr>"

section \<open>What each primitive does to the history\<close>

lemma events_timeline_call: "events (timeline_call ev s) = events s @ [ev]"
  by (simp add: timeline_call_def)

lemma mpi_ctx_timeline_call: "mpi_ctx (timeline_call ev s) = mpi_ctx s"
  by (simp add: timeline_call_def)

lemma Allreduce_events:
  "events (snd (Allreduce env buffer_data num_elements first_entry sendbuff comm s)) =
     events s @
     (case GetMPIDataType env (mpi_ctx s) (Tensor_dtype (tensor first_entry)) of
        Inl e \<Rightarrow> []
      | Inr mpi_type \<Rightarrow>
          (case GetMPICommunicator env (mpi_ctx s) comm of
             Inl e \<Rightarrow> []
           | Inr mpi_c \<Rightarrow>
               [MPI_Allreduce
                  (if sendbuff = nullptr then MPI_IN_PLACE else MPI_buffer sendbuff)
                  buffer_data (ucast num_elements) mpi_type
                  (if Tensor_dtype (tensor first_entry) = HOROVOD_FLOAT16
                   then mpi_float16_sum (mpi_ctx s) else MPI_SUM)
                  mpi_c]))"
  by (simp add: Allreduce_def GetMPIDataType_Tensor_def MPI_call_def split: sum.splits)

lemma Allgatherv_returns:
  assumes "fst (Allgatherv env sendbuf sendcount sendtype recvbuf recvcounts displs recvtype comm s) = Inr ()"
  shows "\<exists>mpi_sendtype mpi_recvtype mpi_c.
           GetMPIDataType env (mpi_ctx s) sendtype = Inr mpi_sendtype \<and>
           GetMPIDataType env (mpi_ctx s) recvtype = Inr mpi_recvtype \<and>
           GetMPICommunicator env (mpi_ctx s) comm = Inr mpi_c \<and>
           snd (Allgatherv env sendbuf sendcount sendtype recvbuf recvcounts displs recvtype comm s) =
             s\<lparr>events := events s @
                 [MPI_Allgatherv (if sendbuf = nullptr then MPI_IN_PLACE else MPI_buffer sendbuf)
                    sendcount mpi_sendtype recvbuf recvcounts displs mpi_recvtype mpi_c]\<rparr>"
  using assms
  by (auto simp add: Allgatherv_def MPI_call_def split: sum.splits if_splits)

lemma Allgatherv_events:
  "events (snd (Allgatherv env sendbuf sendcount sendtype recvbuf recvcounts displs recvtype comm s)) =
     events s @
     (case GetMPIDataType env (mpi_ctx s) sendtype of
        Inl e \<Rightarrow> []
      | Inr mpi_sendtype \<Rightarrow>
          (case GetMPIDataType env (mpi_ctx s) recvtype of
             Inl e \<Rightarrow> []
           | Inr mpi_recvtype \<Rightarrow>
               (case GetMPICommunicator env (mpi_ctx s) comm of
                  Inl e \<Rightarrow> []
                | Inr mpi_c \<Rightarrow>
                    [MPI_Allgatherv
                       (if sendbuf = nullptr then MPI_IN_PLACE else MPI_buffer sendbuf)
                       sendcount mpi_sendtype recvbuf recvcounts displs mpi_recvtype mpi_c])))"
  by (simp add: Allgatherv_def MPI_call_def split: sum.splits)

lemma Allgatherv_mpi_ctx:
  "mpi_ctx (snd (Allgatherv env sendbuf sendcount sendtype recvbuf recvcounts displs recvtype comm s)) = mpi_ctx s"
  by (simp add: Allgatherv_def MPI_call_def split: sum.splits)

lemma Barrier_GLOBAL:
  "Barrier env GLOBAL s =
     (if MPI_return env (events s) (MPI_Barrier (mpi_comm (mpi_ctx s))) \<noteq> MPI_SUCCESS
      then Inl (logic_error ''MPI_Barrier failed, see MPI output for details.'')
      else Inr (),
      s\<lparr>events := events s @ [MPI_Barrier (mpi_comm (mpi_ctx s))]\<rparr>)"
  by (simp add: Barrier_def MPI_call_def GetMPICommunicator_def)

lemma Hier_skip:
  assumes "\<not> (is_homogeneous global_state \<or> local_rank global_state = 0)"
  shows "events (snd (MPIHierarchicalAllgather_DoAllgatherv env global_state entries sendbuf
           sendcount sendtype recvbuf recvcounts displs recvtype s)) =
         events s @ [ActivityStartAll entries MPI_CROSS_ALLGATHER,
                     MPI_Barrier (mpi_comm (mpi_ctx s))] @
           (if MPI_return env (events s @ [ActivityStartAll entries MPI_CROSS_ALLGATHER])
                 (MPI_Barrier (mpi_comm (mpi_ctx s))) = MPI_SUCCESS
            then [ActivityEndAll entries] else [])"
  using assms
  by (simp add: MPIHierarchicalAllgather_DoAllgatherv_def Let_def Barrier_GLOBAL timeline_call_def)

lemma Hier_cross_fails:
  assumes "is_homogeneous global_state \<or> local_rank global_state = 0"
    and "fst (Allgatherv env sendbuf sendcount sendtype recvbuf recvcounts displs recvtype CROSS
               (timeline_call (ActivityStartAll entries MPI_CROSS_ALLGATHER) s)) = Inl e"
  shows "MPIHierarchicalAllgather_DoAllgatherv env global_state entries sendbuf
           sendcount sendtype recvbuf recvcounts displs recvtype s =
         (Inl e, snd (Allgatherv env sendbuf sendcount sendtype recvbuf recvcounts displs recvtype CROSS
               (timeline_call (ActivityStartAll entries MPI_CROSS_ALLGATHER) s)))"
  using assms
  by (auto simp add: MPIHierarchicalAllgather_DoAllgatherv_def Let_def split: prod.splits sum.splits)

lemma Hier_cross_returns:
  assumes "is_homogeneous global_state \<or> local_rank global_state = 0"
    and "fst (Allgatherv env sendbuf sendcount sendtype recvbuf recvcounts displs recvtype CROSS
               (timeline_call (ActivityStartAll entries MPI_CROSS_ALLGATHER) s)) = Inr ()"
  shows "\<exists>mpi_sendtype mpi_recvtype.
           GetMPIDataType env (mpi_ctx s) sendtype = Inr mpi_sendtype \<and>
           GetMPIDataType env (mpi_ctx s) recvtype = Inr mpi_recvtype \<and>
           events (snd (MPIHierarchicalAllgather_DoAllgatherv env global_state entries sendbuf
             sendcount sendtype recvbuf recvcounts displs recvtype s)) =
           events s @ [ActivityStartAll entries MPI_CROSS_ALLGATHER,
                       MPI_Allgatherv (if sendbuf = nullptr then MPI_IN_PLACE else MPI_buffer sendbuf)
                         sendcount mpi_sendtype recvbuf recvcounts displs mpi_recvtype
                         (cross_comm (mpi_ctx s)),
                       MPI_Barrier (mpi_comm (mpi_ctx s))] @
             (if MPI_return env
                   (events s @ [ActivityStartAll entries MPI_CROSS_ALLGATHER,
                       MPI_Allgatherv (if sendbuf = nullptr then MPI_IN_PLACE else MPI_buffer sendbuf)
                         sendcount mpi_sendtype recvbuf recvcounts displs mpi_recvtype
                         (cross_comm (mpi_ctx s))])
                   (MPI_Barrier (mpi_comm (mpi_ctx s))) = MPI_SUCCESS
              then [ActivityEndAll entries] else [])"
proof -
  let ?s0 = "timeline_call (ActivityStartAll entries MPI_CROSS_ALLGATHER) s"
  let ?A = "Allgatherv env sendbuf sendcount sendtype recvbuf recvcounts displs recvtype CROSS ?s0"
  from Allgatherv_returns [OF assms(2)]
  obtain st rt c where st: "GetMPIDataType env (mpi_ctx ?s0) sendtype = Inr st"
    and rt: "GetMPIDataType env (mpi_ctx ?s0) recvtype = Inr rt"
    and c: "GetMPICommunicator env (mpi_ctx ?s0) CROSS = Inr c"
    and s1: "snd ?A = ?s0\<lparr>events := events ?s0 @
                 [MPI_Allgatherv (if sendbuf = nullptr then MPI_IN_PLACE else MPI_buffer sendbuf)
                    sendcount st recvbuf recvcounts displs rt c]\<rparr>"
    by blast
  have ctx0: "mpi_ctx ?s0 = mpi_ctx s" by (simp add: timeline_call_def)
  have c': "c = cross_comm (mpi_ctx s)"
    using c by (simp add: ctx0 GetMPICommunicator_def)
  have A: "?A = (Inr (), snd ?A)"
    using assms(2) by (metis prod.collapse)
  have step: "MPIHierarchicalAllgather_DoAllgatherv env global_state entries sendbuf
             sendcount sendtype recvbuf recvcounts displs recvtype s =
        (case Barrier env GLOBAL (snd ?A) of
           (Inl e, s2) \<Rightarrow> (Inl e, s2)
         | (Inr _, s2) \<Rightarrow> (Inr (), timeline_call (ActivityEndAll entries) s2))"
    apply (simp only: MPIHierarchicalAllgather_DoAllgatherv_def Let_def if_P [OF assms(1)])
    apply (subst A)
    apply (simp only: prod.case sum.case)
    done
  have ev1: "events (snd ?A) = events s @ [ActivityStartAll entries MPI_CROSS_ALLGATHER,
                 MPI_Allgatherv (if sendbuf = nullptr then MPI_IN_PLACE else MPI_buffer sendbuf)
                    sendcount st recvbuf recvcounts displs rt (cross_comm (mpi_ctx s))]"
    unfolding s1 by (simp add: c' timeline_call_def)
  have ctx1: "mpi_ctx (snd ?A) = mpi_ctx s"
    unfolding s1 by (simp add: timeline_call_def)
  have "events (snd (MPIHierarchicalAllgather_DoAllgatherv env global_state entries sendbuf
             sendcount sendtype recvbuf recvcounts displs recvtype s)) =
           events s @ [ActivityStartAll entries MPI_CROSS_ALLGATHER,
                       MPI_Allgatherv (if sendbuf = nullptr then MPI_IN_PLACE else MPI_buffer sendbuf)
                         sendcount st recvbuf recvcounts displs rt
                         (cross_comm (mpi_ctx s)),
                       MPI_Barrier (mpi_comm (mpi_ctx s))] @
             (if MPI_return env
                   (events s @ [ActivityStartAll entries MPI_CROSS_ALLGATHER,
                       MPI_Allgatherv (if sendbuf = nullptr then MPI_IN_PLACE else MPI_buffer sendbuf)
                         sendcount st recvbuf recvcounts displs rt
                         (cross_comm (mpi_ctx s))])
                   (MPI_Barrier (mpi_comm (mpi_ctx s))) = MPI_SUCCESS
              then [ActivityEndAll entries] else [])"
    by (simp add: step Barrier_GLOBAL ev1 ctx1 events_timeline_call)
  with st rt show ?thesis
    by (simp only: ctx0) blast
qed

lemma GetMPICommunicator_same_handles:
  assumes "mpi_comm ctx' = mpi_comm ctx" and "local_comm ctx' = local_comm ctx"
    and "cross_comm ctx' = cross_comm ctx"
  shows "GetMPICommunicator env ctx' comm = GetMPICommunicator env ctx comm"
  using assms by (simp add: GetMPICommunicator_def split: Communicator.splits)

lemma Allreduce_mpi_ctx:
  "mpi_ctx (snd (Allreduce env buffer_data num_elements first_entry sendbuff comm s)) = mpi_ctx s"
  by (simp add: Allreduce_def MPI_call_def split: sum.splits)

lemma Broadcast_mpi_ctx:
  "mpi_ctx (snd (Broadcast env buffer_data num_elements dtype root_rank comm s)) = mpi_ctx s"
  by (simp add: Broadcast_def MPI_call_def split: sum.splits)

lemma Barrier_mpi_ctx: "mpi_ctx (snd (Barrier env comm s)) = mpi_ctx s"
  by (simp add: Barrier_def MPI_call_def split: sum.splits)

lemma QuerySharedBuffer_mpi_ctx: "mpi_ctx (snd (QuerySharedBuffer env rank baseptr s)) = mpi_ctx s"
  by (simp add: QuerySharedBuffer_def MPI_call_def)

lemma GetTypeSize_mpi_ctx: "mpi_ctx (snd (GetTypeSize env dtype out s)) = mpi_ctx s"
  by (simp add: GetTypeSize_def MPI_call_def split: sum.splits)

lemma AllocateSharedBuffer_handles:
  "mpi_comm (mpi_ctx (snd (AllocateSharedBuffer env window_size element_size baseptr comm s))) =
     mpi_comm (mpi_ctx s) \<and>
   local_comm (mpi_ctx (snd (AllocateSharedBuffer env window_size element_size baseptr comm s))) =
     local_comm (mpi_ctx s) \<and>
   cross_comm (mpi_ctx (snd (AllocateSharedBuffer env window_size element_size baseptr comm s))) =
     cross_comm (mpi_ctx s)"
  by (simp add: AllocateSharedBuffer_def MPI_call_def Let_def split: sum.splits)

lemma FreeSharedBuffer_handles:
  "mpi_comm (mpi_ctx (snd (FreeSharedBuffer env s))) = mpi_comm (mpi_ctx s) \<and>
   local_comm (mpi_ctx (snd (FreeSharedBuffer env s))) = local_comm (mpi_ctx s) \<and>
   cross_comm (mpi_ctx (snd (FreeSharedBuffer env s))) = cross_comm (mpi_ctx s)"
  by (simp add: FreeSharedBuffer_def MPI_call_def Let_def)

lemma singleton_of_length_1: "length xs = 1 \<Longrightarrow> \<exists>x. xs = [x]"
  by (cases xs) auto

lemma DoMPIAllreduce_Cons:
  "DoMPIAllreduce env (first_entry # rest) buffer_data num_elements buffer_len s =
     Allreduce env buffer_data num_elements first_entry
       (if length (first_entry # rest) > 1 \<or>
           Tensor_data (tensor first_entry) = Tensor_data (output first_entry)
        then nullptr else Tensor_data (tensor first_entry))
       GLOBAL s"
  by (simp add: DoMPIAllreduce_def Let_def)

lemma no_Allgatherv_simps:
  "\<not> is_MPI_Allgatherv (ActivityStartAll entries a)"
  "\<not> is_MPI_Allgatherv (ActivityEndAll entries)"
  "\<not> is_MPI_Allgatherv (MPI_Barrier c)"
  "is_MPI_Allgatherv (MPI_Allgatherv sb sc st rb rc ds rt c)"
  by (simp_all add: is_MPI_Allgatherv_def)

lemma no_Barrier_simps:
  "\<not> is_MPI_Barrier (ActivityStartAll entries a)"
  "\<not> is_MPI_Barrier (ActivityEndAll entries)"
  "is_MPI_Barrier (MPI_Barrier c)"
  "\<not> is_MPI_Barrier (MPI_Allgatherv sb sc st rb rc ds rt c)"
  by (simp_all add: is_MPI_Barrier_def)

text \<open>
  A non-success status of the library is fatal in the four collectives: the exception
  carries the name of the primitive, and the library was called once.
\<close>

lemma Allreduce_failure_is_fatal:
  assumes "GetMPIDataType env (mpi_ctx s) (Tensor_dtype (tensor first_entry)) = Inr mpi_type"
    and "GetMPICommunicator env (mpi_ctx s) comm = Inr mpi_c"
    and "MPI_return env (events s)
           (MPI_Allreduce (if sendbuff = nullptr then MPI_IN_PLACE else MPI_buffer sendbuff)
              buffer_data (ucast num_elements) mpi_type
              (if Tensor_dtype (tensor first_entry) = HOROVOD_FLOAT16
               then mpi_float16_sum (mpi_ctx s) else MPI_SUM) mpi_c) \<noteq> MPI_SUCCESS"
  shows "Allreduce env buffer_data num_elements first_entry sendbuff comm s =
         (Inl (logic_error ''MPI_Allreduce failed, see MPI output for details.''),
          s\<lparr>events := events s @
              [MPI_Allreduce (if sendbuff = nullptr then MPI_IN_PLACE else MPI_buffer sendbuff)
                 buffer_data (ucast num_elements) mpi_type
                 (if Tensor_dtype (tensor first_entry) = HOROVOD_FLOAT16
                  then mpi_float16_sum (mpi_ctx s) else MPI_SUM) mpi_c]\<rparr>)"
  using assms by (auto simp add: Allreduce_def GetMPIDataType_Tensor_def MPI_call_def)

lemma Allgatherv_failure_is_fatal:
  assumes "GetMPIDataType env (mpi_ctx s) sendtype = Inr mpi_sendtype"
    and "GetMPIDataType env (mpi_ctx s) recvtype = Inr mpi_recvtype"
    and "GetMPICommunicator env (mpi_ctx s) comm = Inr mpi_c"
    and "MPI_return env (events s)
           (MPI_Allgatherv (if sendbuf = nullptr then MPI_IN_PLACE else MPI_buffer sendbuf)
              sendcount mpi_sendtype recvbuf recvcounts displs mpi_recvtype mpi_c) \<noteq>
         MPI_SUCCESS"
  shows "Allgatherv env sendbuf sendcount sendtype recvbuf recvcounts displs recvtype comm s =
         (Inl (logic_error ''MPI_Allgatherv failed, see MPI output for details.''),
          s\<lparr>events := events s @
              [MPI_Allgatherv (if sendbuf = nullptr then MPI_IN_PLACE else MPI_buffer sendbuf)
                 sendcount mpi_sendtype recvbuf recvcounts displs mpi_recvtype mpi_c]\<rparr>)"
  using assms by (auto simp add: Allgatherv_def MPI_call_def)

lemma Broadcast_failure_is_fatal:
  assumes "GetMPIDataType env (mpi_ctx s) dtype = Inr mpi_type"
    and "GetMPICommunicator env (mpi_ctx s) comm = Inr mpi_c"
    and "MPI_return env (events s)
           (MPI_Bcast buffer_data (ucast num_elements) mpi_type root_rank mpi_c) \<noteq> MPI_SUCCESS"
  shows "Broadcast env buffer_data num_elements dtype root_rank comm s =
         (Inl (logic_error ''MPI_Broadcast failed, see MPI output for details.''),
          s\<lparr>events := events s @
              [MPI_Bcast buffer_data (ucast num_elements) mpi_type root_rank mpi_c]\<rparr>)"
  using assms by (simp add: Broadcast_def MPI_call_def)

lemma Barrier_failure_is_fatal:
  assumes "GetMPICommunicator env (mpi_ctx s) comm = Inr mpi_c"
    and "MPI_return env (events s) (MPI_Barrier mpi_c) \<noteq> MPI_SUCCESS"
  shows "Barrier env comm s =
         (Inl (logic_error ''MPI_Barrier failed, see MPI output for details.''),
          s\<lparr>events := events s @ [MPI_Barrier mpi_c]\<rparr>)"
  using assms by (simp add: Barrier_def MPI_call_def)

section \<open>Resolving a datatype (claim C1)\<close>

text \<open>
  Claim C1, as stated, fails at the null marker: \<^verbatim>\<open>GetMPIDataType\<close> has a case label for
  \<open>HOROVOD_NULL\<close> and returns the library's null datatype handle there. It does not
  throw the unsupported-type error.
\<close>

theorem GetMPIDataType_NULL_returns_handle:
  "GetMPIDataType working_env example_ctx HOROVOD_NULL = Inr MPI_DATATYPE_NULL \<and>
   GetMPIDataType working_env example_ctx HOROVOD_NULL \<noteq>
     Inl (logic_error (''Type '' @ DataType_Name working_env HOROVOD_NULL @
            '' is not supported in MPI mode.''))"
  by (simp add: GetMPIDataType_def)

text \<open>
  Claim C1 as amended: for each datatype the switch names, the null marker among them,
  \<^verbatim>\<open>GetMPIDataType\<close> returns a handle of the library (for 16-bit float the registered
  type of the context, for the null marker \<^verbatim>\<open>MPI_DATATYPE_NULL\<close>); for a value of the
  enumeration that the switch does not name it throws the unsupported-type error, whose
  message carries the name of the type.
\<close>

theorem GetMPIDataType_by_case:
  "GetMPIDataType env ctx HOROVOD_UINT8 = Inr MPI_UINT8_T \<and>
   GetMPIDataType env ctx HOROVOD_INT8 = Inr MPI_INT8_T \<and>
   GetMPIDataType env ctx HOROVOD_UINT16 = Inr MPI_UINT16_T \<and>
   GetMPIDataType env ctx HOROVOD_INT16 = Inr MPI_INT16_T \<and>
   GetMPIDataType env ctx HOROVOD_INT32 = Inr MPI_INT32_T \<and>
   GetMPIDataType env ctx HOROVOD_INT64 = Inr MPI_INT64_T \<and>
   GetMPIDataType env ctx HOROVOD_FLOAT16 = Inr (mpi_float16_t ctx) \<and>
   GetMPIDataType env ctx HOROVOD_FLOAT32 = Inr MPI_FLOAT \<and>
   GetMPIDataType env ctx HOROVOD_FLOAT64 = Inr MPI_DOUBLE \<and>
   GetMPIDataType env ctx HOROVOD_BOOL = Inr MPI_C_BOOL \<and>
   GetMPIDataType env ctx HOROVOD_BYTE = Inr MPI_BYTE \<and>
   GetMPIDataType env ctx HOROVOD_NULL = Inr MPI_DATATYPE_NULL \<and>
   GetMPIDataType env ctx (HOROVOD_unlisted n) =
     Inl (logic_error (''Type '' @ DataType_Name env (HOROVOD_unlisted n) @
            '' is not supported in MPI mode.''))"
  by (simp add: GetMPIDataType_def)

section \<open>Resolving a communicator (claim C7)\<close>

text \<open>
  Claim C7: \<^verbatim>\<open>GetMPICommunicator\<close> returns for \<open>GLOBAL\<close>, \<open>LOCAL\<close> and \<open>CROSS\<close> the
  handle held in the context; for any other scope value it throws the unsupported-scope
  error, whose message carries the name of the scope; and no primitive of the context
  changes what a scope resolves to, so every later call returns the same handle.
\<close>

theorem GetMPICommunicator_scopes:
  "GetMPICommunicator env ctx GLOBAL = Inr (mpi_comm ctx) \<and>
   GetMPICommunicator env ctx LOCAL = Inr (local_comm ctx) \<and>
   GetMPICommunicator env ctx CROSS = Inr (cross_comm ctx) \<and>
   GetMPICommunicator env ctx (Communicator_unlisted n) =
     Inl (logic_error (''Communicator '' @ CommunicatorName env (Communicator_unlisted n) @
            '' is not supported in MPI mode.'')) \<and>
   GetMPICommunicator env
       (mpi_ctx (snd (Allreduce env buffer_data num_elements first_entry sendbuff comm s))) scope =
     GetMPICommunicator env (mpi_ctx s) scope \<and>
   GetMPICommunicator env
       (mpi_ctx (snd (Allgatherv env sendbuf sendcount sendtype recvbuf recvcounts displs
                        recvtype comm s))) scope =
     GetMPICommunicator env (mpi_ctx s) scope \<and>
   GetMPICommunicator env
       (mpi_ctx (snd (Broadcast env buffer_data num_elements dtype root_rank comm s))) scope =
     GetMPICommunicator env (mpi_ctx s) scope \<and>
   GetMPICommunicator env (mpi_ctx (snd (Barrier env comm s))) scope =
     GetMPICommunicator env (mpi_ctx s) scope \<and>
   GetMPICommunicator env
       (mpi_ctx (snd (AllocateSharedBuffer env window_size element_size baseptr comm s))) scope =
     GetMPICommunicator env (mpi_ctx s) scope \<and>
   GetMPICommunicator env (mpi_ctx (snd (FreeSharedBuffer env s))) scope =
     GetMPICommunicator env (mpi_ctx s) scope \<and>
   GetMPICommunicator env (mpi_ctx (snd (QuerySharedBuffer env rank baseptr s))) scope =
     GetMPICommunicator env (mpi_ctx s) scope \<and>
   GetMPICommunicator env (mpi_ctx (snd (GetTypeSize env dtype out s))) scope =
     GetMPICommunicator env (mpi_ctx s) scope"
proof -
  have resolve: "GetMPICommunicator env ctx GLOBAL = Inr (mpi_comm ctx)"
      "GetMPICommunicator env ctx LOCAL = Inr (local_comm ctx)"
      "GetMPICommunicator env ctx CROSS = Inr (cross_comm ctx)"
      "GetMPICommunicator env ctx (Communicator_unlisted n) =
         Inl (logic_error (''Communicator '' @ CommunicatorName env (Communicator_unlisted n) @
            '' is not supported in MPI mode.''))"
    by (simp_all add: GetMPICommunicator_def)
  have alloc: "GetMPICommunicator env
       (mpi_ctx (snd (AllocateSharedBuffer env window_size element_size baseptr comm s))) scope =
     GetMPICommunicator env (mpi_ctx s) scope"
    by (rule GetMPICommunicator_same_handles) (simp_all add: AllocateSharedBuffer_handles)
  have free: "GetMPICommunicator env (mpi_ctx (snd (FreeSharedBuffer env s))) scope =
     GetMPICommunicator env (mpi_ctx s) scope"
    by (rule GetMPICommunicator_same_handles) (simp_all add: FreeSharedBuffer_handles)
  show ?thesis
    by (simp only: resolve alloc free Allreduce_mpi_ctx Allgatherv_mpi_ctx Broadcast_mpi_ctx
          Barrier_mpi_ctx QuerySharedBuffer_mpi_ctx GetTypeSize_mpi_ctx)
qed

section \<open>Enablement (claim C8)\<close>

text \<open>
  Claim C8: the plain Allreduce, plain Allgather and Broadcast dispatchers are enabled
  for every configuration, batch and response; the hierarchical Allgather dispatcher is
  enabled exactly when the configuration's hierarchical-allgather flag is set.
\<close>

theorem Enabled_predicates:
  "MPIAllreduce_Enabled param_manager entries response \<and>
   MPIAllgather_Enabled param_manager entries response' \<and>
   MPIBroadcast_Enabled param_manager entries response'' \<and>
   MPIHierarchicalAllgather_Enabled param_manager entries response''' =
     HierarchicalAllgather param_manager"
  by (simp add: MPIAllreduce_Enabled_def MPIAllgather_Enabled_def MPIBroadcast_Enabled_def
        MPIHierarchicalAllgather_Enabled_def)

section \<open>Freeing the shared window (claim C9)\<close>

text \<open>
  Claim C9: every call of \<^verbatim>\<open>FreeSharedBuffer\<close> adds to the history exactly a fence on
  the window followed by the release of that window: the fence comes first, and there
  is no release without it, whatever status the library returns for the fence.
\<close>

theorem FreeSharedBuffer_fence_then_free:
  "events (snd (FreeSharedBuffer env s)) =
     events s @ [MPI_Win_fence 0 (window (mpi_ctx s)), MPI_Win_free (window (mpi_ctx s))]"
  by (simp add: FreeSharedBuffer_def MPI_call_def Let_def)

section \<open>A failing library call (claim C3)\<close>

text \<open>
  Claim C3 at a library that reports a non-success status for every call: the three
  operations on the shared window return normally, while \<^verbatim>\<open>Barrier\<close>, on the same
  library, throws the error that names its primitive.
\<close>

theorem shared_buffer_status_dropped:
  "MPI_return failing_env [] (MPI_Win_allocate_shared 1024 4 (MPI_Comm_handle 2) 4096) \<noteq> MPI_SUCCESS \<and>
   fst (AllocateSharedBuffer failing_env 1024 4 4096 LOCAL example_state) = Inr () \<and>
   fst (FreeSharedBuffer failing_env example_state) = Inr () \<and>
   fst (QuerySharedBuffer failing_env 1 4096 example_state) = Inr () \<and>
   fst (Barrier failing_env LOCAL example_state) =
     Inl (logic_error ''MPI_Barrier failed, see MPI output for details.'')"
  by (simp add: failing_env_def working_env_def MPI_SUCCESS_def AllocateSharedBuffer_def
        FreeSharedBuffer_def QuerySharedBuffer_def Barrier_def MPI_call_def Let_def
        GetMPICommunicator_def example_state_def example_ctx_def)

section \<open>The send buffer of a reduction (claim C4)\<close>

text \<open>
  Claim C4: a call of \<^verbatim>\<open>MPIContext::Allreduce\<close> adds to the history nothing but calls
  of \<^verbatim>\<open>MPI_Allreduce\<close>, each with \<^verbatim>\<open>MPI_IN_PLACE\<close> as its send buffer when the
  argument \<^verbatim>\<open>sendbuff\<close> is null and with that separate buffer when it is not, and with
  \<^verbatim>\<open>buffer_data\<close> as the buffer the result is written to. It adds exactly one such
  call whenever the datatype and the scope resolve (an exception of either ends the
  call before the library is reached).
\<close>

theorem Allreduce_send_buffer:
  "\<exists>new.
     events (snd (Allreduce env buffer_data num_elements first_entry sendbuff comm s)) =
       events s @ new \<and>
     (\<forall>ev \<in> set new. \<exists>mpi_type mpi_op mpi_c.
        ev = MPI_Allreduce (if sendbuff = nullptr then MPI_IN_PLACE else MPI_buffer sendbuff)
               buffer_data (ucast num_elements) mpi_type mpi_op mpi_c) \<and>
     length new =
       (if isl (GetMPIDataType env (mpi_ctx s) (Tensor_dtype (tensor first_entry))) \<or>
           isl (GetMPICommunicator env (mpi_ctx s) comm)
        then 0 else 1)"
  by (cases "GetMPIDataType env (mpi_ctx s) (Tensor_dtype (tensor first_entry))";
      cases "GetMPICommunicator env (mpi_ctx s) comm")
     (simp_all add: Allreduce_events)

text \<open>
  The theorem for claim C4 at a concrete call with a null send buffer, and at one with the
  separate send buffer 4096: the datatype and the scope resolve, the one event is the
  reduction, in place in the first call and from 4096 in the second.
\<close>

theorem Allreduce_send_buffer_witness:
  "(\<exists>mpi_type mpi_op mpi_c.
      events (snd (Allreduce working_env 8192 4 example_entry nullptr GLOBAL example_state)) =
        [MPI_Allreduce MPI_IN_PLACE 8192 4 mpi_type mpi_op mpi_c]) \<and>
   (\<exists>mpi_type mpi_op mpi_c.
      events (snd (Allreduce working_env 8192 4 example_entry 4096 GLOBAL example_state)) =
        [MPI_Allreduce (MPI_buffer 4096) 8192 4 mpi_type mpi_op mpi_c])"
proof -
  have resolved:
    "\<not> isl (GetMPIDataType working_env (mpi_ctx example_state)
              (Tensor_dtype (tensor example_entry)))"
    "\<not> isl (GetMPICommunicator working_env (mpi_ctx example_state) GLOBAL)"
    by (simp_all add: GetMPIDataType_def GetMPICommunicator_def example_entry_def)
  have nothing_before: "events example_state = []"
    by (simp add: example_state_def)
  have "\<exists>mpi_type mpi_op mpi_c.
      events (snd (Allreduce working_env 8192 4 example_entry sendbuff GLOBAL example_state)) =
        [MPI_Allreduce (if sendbuff = nullptr then MPI_IN_PLACE else MPI_buffer sendbuff)
           8192 4 mpi_type mpi_op mpi_c]" for sendbuff
  proof -
    from Allreduce_send_buffer [of working_env 8192 4 example_entry sendbuff GLOBAL example_state]
    obtain new where
      new: "events (snd (Allreduce working_env 8192 4 example_entry sendbuff GLOBAL example_state)) =
              events example_state @ new"
      and each: "\<forall>ev \<in> set new. \<exists>mpi_type mpi_op mpi_c.
        ev = MPI_Allreduce (if sendbuff = nullptr then MPI_IN_PLACE else MPI_buffer sendbuff)
               8192 (ucast (4 :: int64_t)) mpi_type mpi_op mpi_c"
      and one: "length new = 1"
      using resolved by auto
    from one obtain ev where "new = [ev]"
      using singleton_of_length_1 by blast
    with new each nothing_before show ?thesis
      by auto
  qed
  from this [of nullptr] this [of 4096] show ?thesis
    by simp
qed

section \<open>The operator of a reduction (claim C5)\<close>

text \<open>
  Claim C5: every reduction that \<^verbatim>\<open>MPIContext::Allreduce\<close> hands to the library uses the
  operator \<^verbatim>\<open>mpi_float16_sum\<close> of the context when the datatype of the entry is 16-bit
  float, and \<^verbatim>\<open>MPI_SUM\<close> for every other datatype; its datatype handle is what
  \<^verbatim>\<open>GetMPIDataType\<close> resolves, which for 16-bit float is the registered type
  \<^verbatim>\<open>mpi_float16_t\<close> of the context. The call leaves both members of the context as
  they were, so the same registered type and operator serve the next call.
\<close>

theorem Allreduce_operator:
  "\<exists>new.
     events (snd (Allreduce env buffer_data num_elements first_entry sendbuff comm s)) =
       events s @ new \<and>
     (\<forall>ev \<in> set new. \<exists>mpi_sendbuf mpi_type mpi_c.
        GetMPIDataType env (mpi_ctx s) (Tensor_dtype (tensor first_entry)) = Inr mpi_type \<and>
        ev = MPI_Allreduce mpi_sendbuf buffer_data (ucast num_elements) mpi_type
               (if Tensor_dtype (tensor first_entry) = HOROVOD_FLOAT16
                then mpi_float16_sum (mpi_ctx s) else MPI_SUM)
               mpi_c) \<and>
     length new =
       (if isl (GetMPIDataType env (mpi_ctx s) (Tensor_dtype (tensor first_entry))) \<or>
           isl (GetMPICommunicator env (mpi_ctx s) comm)
        then 0 else 1) \<and>
     GetMPIDataType env (mpi_ctx s) HOROVOD_FLOAT16 = Inr (mpi_float16_t (mpi_ctx s)) \<and>
     mpi_float16_t
        (mpi_ctx (snd (Allreduce env buffer_data num_elements first_entry sendbuff comm s))) =
       mpi_float16_t (mpi_ctx s) \<and>
     mpi_float16_sum
        (mpi_ctx (snd (Allreduce env buffer_data num_elements first_entry sendbuff comm s))) =
       mpi_float16_sum (mpi_ctx s)"
proof -
  have f16: "GetMPIDataType env (mpi_ctx s) HOROVOD_FLOAT16 = Inr (mpi_float16_t (mpi_ctx s))"
    by (simp add: GetMPIDataType_def)
  show ?thesis
    by (cases "GetMPIDataType env (mpi_ctx s) (Tensor_dtype (tensor first_entry))";
        cases "GetMPICommunicator env (mpi_ctx s) comm")
       (simp_all add: Allreduce_events Allreduce_mpi_ctx f16)
qed

text \<open>
  The theorem for claim C5 at an entry of 16-bit floats (registered type and operator of
  the context) and at an entry of 32-bit floats (\<^verbatim>\<open>MPI_FLOAT\<close> and \<^verbatim>\<open>MPI_SUM\<close>).
\<close>

theorem Allreduce_operator_witness:
  "(\<exists>mpi_sendbuf mpi_c.
      events (snd (Allreduce working_env 8192 4 example_float16_entry nullptr GLOBAL
                     example_state)) =
        [MPI_Allreduce mpi_sendbuf 8192 4 (MPI_Datatype_handle 1) (MPI_Op_handle 1) mpi_c]) \<and>
   (\<exists>mpi_sendbuf mpi_c.
      events (snd (Allreduce working_env 8192 4 example_entry nullptr GLOBAL example_state)) =
        [MPI_Allreduce mpi_sendbuf 8192 4 MPI_FLOAT MPI_SUM mpi_c])"
proof -
  have nothing_before: "events example_state = []"
    by (simp add: example_state_def)
  have comm: "\<not> isl (GetMPICommunicator working_env (mpi_ctx example_state) GLOBAL)"
    by (simp add: GetMPICommunicator_def)
  have ty16: "GetMPIDataType working_env (mpi_ctx example_state)
                (Tensor_dtype (tensor example_float16_entry)) = Inr (MPI_Datatype_handle 1)"
    by (simp add: GetMPIDataType_def example_float16_entry_def example_state_def example_ctx_def)
  have ty32: "GetMPIDataType working_env (mpi_ctx example_state)
                (Tensor_dtype (tensor example_entry)) = Inr MPI_FLOAT"
    by (simp add: GetMPIDataType_def example_entry_def)
  have op16: "(if Tensor_dtype (tensor example_float16_entry) = HOROVOD_FLOAT16
               then mpi_float16_sum (mpi_ctx example_state) else MPI_SUM) = MPI_Op_handle 1"
    by (simp add: example_float16_entry_def example_state_def example_ctx_def)
  have op32: "(if Tensor_dtype (tensor example_entry) = HOROVOD_FLOAT16
               then mpi_float16_sum (mpi_ctx example_state) else MPI_SUM) = MPI_SUM"
    by (simp add: example_entry_def)
  from Allreduce_operator [of working_env 8192 4 example_float16_entry nullptr GLOBAL example_state]
  obtain new16 where
    "events (snd (Allreduce working_env 8192 4 example_float16_entry nullptr GLOBAL
                    example_state)) = new16"
    and "\<forall>ev \<in> set new16. \<exists>mpi_sendbuf mpi_c.
           ev = MPI_Allreduce mpi_sendbuf 8192 4 (MPI_Datatype_handle 1) (MPI_Op_handle 1) mpi_c"
    and "length new16 = 1"
    unfolding ty16 op16 nothing_before using comm by auto
  moreover
  from Allreduce_operator [of working_env 8192 4 example_entry nullptr GLOBAL example_state]
  obtain new32 where
    "events (snd (Allreduce working_env 8192 4 example_entry nullptr GLOBAL example_state)) =
       new32"
    and "\<forall>ev \<in> set new32. \<exists>mpi_sendbuf mpi_c.
           ev = MPI_Allreduce mpi_sendbuf 8192 4 MPI_FLOAT MPI_SUM mpi_c"
    and "length new32 = 1"
    unfolding ty32 op32 nothing_before using comm by auto
  ultimately show ?thesis
    by (metis singleton_of_length_1 list.set_intros(1))
qed

section \<open>The send buffer the dispatcher chooses (claim C10)\<close>

text \<open>
  Claim C10: every reduction that \<^verbatim>\<open>DoMPIAllreduce\<close> hands to the library targets the
  communicator of the scope \<open>GLOBAL\<close>. Its send buffer is a separate buffer only when
  the batch has exactly one entry whose input pointer differs from its output pointer
  (and then it is that input pointer); when the batch has more than one entry, or the
  first entry's input and output pointers are equal, it is \<^verbatim>\<open>MPI_IN_PLACE\<close>. There is
  exactly one reduction whenever the datatype of the first entry resolves.
\<close>

theorem DoMPIAllreduce_send_buffer:
  "\<exists>new.
     events (snd (DoMPIAllreduce env (first_entry # rest) buffer_data num_elements buffer_len s)) =
       events s @ new \<and>
     (\<forall>ev \<in> set new. \<exists>mpi_sendbuf mpi_type mpi_op.
        ev = MPI_Allreduce mpi_sendbuf buffer_data (ucast num_elements) mpi_type mpi_op
               (mpi_comm (mpi_ctx s)) \<and>
        (\<forall>p. mpi_sendbuf = MPI_buffer p \<longrightarrow>
           length (first_entry # rest) = 1 \<and>
           Tensor_data (tensor first_entry) \<noteq> Tensor_data (output first_entry) \<and>
           p = Tensor_data (tensor first_entry)) \<and>
        (length (first_entry # rest) > 1 \<or>
         Tensor_data (tensor first_entry) = Tensor_data (output first_entry) \<longrightarrow>
           mpi_sendbuf = MPI_IN_PLACE)) \<and>
     length new =
       (if isl (GetMPIDataType env (mpi_ctx s) (Tensor_dtype (tensor first_entry)))
        then 0 else 1)"
  by (cases "GetMPIDataType env (mpi_ctx s) (Tensor_dtype (tensor first_entry))")
     (simp_all add: DoMPIAllreduce_Cons Allreduce_events GetMPICommunicator_def)

text \<open>
  The theorem for claim C10 at a batch of two entries and at a batch of one entry whose
  input and output alias (both in place), and at a batch of one entry with input 4096
  and output 8192, where the reduction reads from 4096.
\<close>

theorem DoMPIAllreduce_send_buffer_witness:
  "(\<exists>mpi_type mpi_op.
      events (snd (DoMPIAllreduce working_env [example_entry, example_float16_entry] 8192 4 16
                     example_state)) =
        [MPI_Allreduce MPI_IN_PLACE 8192 4 mpi_type mpi_op (MPI_Comm_handle 1)]) \<and>
   (\<exists>mpi_type mpi_op.
      events (snd (DoMPIAllreduce working_env [example_float16_entry] 8192 4 16 example_state)) =
        [MPI_Allreduce MPI_IN_PLACE 8192 4 mpi_type mpi_op (MPI_Comm_handle 1)]) \<and>
   events (snd (DoMPIAllreduce working_env [example_entry] 8192 4 16 example_state)) =
     [MPI_Allreduce (MPI_buffer 4096) 8192 4 MPI_FLOAT MPI_SUM (MPI_Comm_handle 1)] \<and>
   length [example_entry] = 1 \<and>
   Tensor_data (tensor example_entry) \<noteq> Tensor_data (output example_entry)"
proof -
  have nothing_before: "events example_state = []"
    and global: "mpi_comm (mpi_ctx example_state) = MPI_Comm_handle 1"
    by (simp_all add: example_state_def example_ctx_def)
  have resolved:
    "\<not> isl (GetMPIDataType working_env (mpi_ctx example_state)
              (Tensor_dtype (tensor example_entry)))"
    "\<not> isl (GetMPIDataType working_env (mpi_ctx example_state)
              (Tensor_dtype (tensor example_float16_entry)))"
    by (simp_all add: GetMPIDataType_def example_entry_def example_float16_entry_def)
  have same: "Tensor_data (tensor example_float16_entry) =
              Tensor_data (output example_float16_entry)"
    by (simp add: example_float16_entry_def)
  from DoMPIAllreduce_send_buffer
         [of working_env example_entry "[example_float16_entry]" 8192 4 16 example_state]
  obtain new2 where
    "events (snd (DoMPIAllreduce working_env [example_entry, example_float16_entry] 8192 4 16
                    example_state)) = new2"
    and "\<forall>ev \<in> set new2. \<exists>mpi_type mpi_op.
           ev = MPI_Allreduce MPI_IN_PLACE 8192 4 mpi_type mpi_op (MPI_Comm_handle 1)"
    and "length new2 = 1"
    unfolding nothing_before global using resolved by auto
  then have two: "\<exists>mpi_type mpi_op.
      events (snd (DoMPIAllreduce working_env [example_entry, example_float16_entry] 8192 4 16
                     example_state)) =
        [MPI_Allreduce MPI_IN_PLACE 8192 4 mpi_type mpi_op (MPI_Comm_handle 1)]"
    by (metis singleton_of_length_1 list.set_intros(1))
  from DoMPIAllreduce_send_buffer
         [of working_env example_float16_entry "[]" 8192 4 16 example_state]
  obtain new1 where
    "events (snd (DoMPIAllreduce working_env [example_float16_entry] 8192 4 16
                    example_state)) = new1"
    and "\<forall>ev \<in> set new1. \<exists>mpi_type mpi_op.
           ev = MPI_Allreduce MPI_IN_PLACE 8192 4 mpi_type mpi_op (MPI_Comm_handle 1)"
    and "length new1 = 1"
    unfolding nothing_before global using resolved same by auto
  then have aliased: "\<exists>mpi_type mpi_op.
      events (snd (DoMPIAllreduce working_env [example_float16_entry] 8192 4 16 example_state)) =
        [MPI_Allreduce MPI_IN_PLACE 8192 4 mpi_type mpi_op (MPI_Comm_handle 1)]"
    by (metis singleton_of_length_1 list.set_intros(1))
  have separate:
    "events (snd (DoMPIAllreduce working_env [example_entry] 8192 4 16 example_state)) =
       [MPI_Allreduce (MPI_buffer 4096) 8192 4 MPI_FLOAT MPI_SUM (MPI_Comm_handle 1)]"
    by (simp add: DoMPIAllreduce_Cons Allreduce_events GetMPIDataType_def GetMPICommunicator_def
          example_entry_def example_state_def example_ctx_def)
  from DoMPIAllreduce_send_buffer [of working_env example_entry "[]" 8192 4 16 example_state]
  have only_when: "length [example_entry] = 1 \<and>
      Tensor_data (tensor example_entry) \<noteq> Tensor_data (output example_entry)"
    unfolding separate nothing_before by auto
  from two aliased separate only_when show ?thesis
    by blast
qed

section \<open>Who takes part in the cross-node stage (claim C2)\<close>

text \<open>
  Claim C2, as stated, fails on a homogeneous cluster: there the condition
  \<^verbatim>\<open>is_homogeneous || local_rank == 0\<close> holds on every rank, and a rank whose local rank
  is 1 issues the cross-node \<^verbatim>\<open>Allgatherv\<close> like any other.
\<close>

theorem hierarchical_homogeneous_all_ranks:
  "is_homogeneous \<lparr>is_homogeneous = True, local_rank = 1\<rparr> \<and>
   local_rank \<lparr>is_homogeneous = True, local_rank = 1\<rparr> \<noteq> 0 \<and>
   events (snd (MPIHierarchicalAllgather_DoAllgatherv working_env
                  \<lparr>is_homogeneous = True, local_rank = 1\<rparr> [example_entry]
                  4096 4 HOROVOD_FLOAT32 8192 [4, 4] [0, 4] HOROVOD_FLOAT32 example_state)) =
     [ActivityStartAll [example_entry] MPI_CROSS_ALLGATHER,
      MPI_Allgatherv (MPI_buffer 4096) 4 MPI_FLOAT 8192 [4, 4] [0, 4] MPI_FLOAT
        (MPI_Comm_handle 3),
      MPI_Barrier (MPI_Comm_handle 1),
      ActivityEndAll [example_entry]]"
  by (simp add: MPIHierarchicalAllgather_DoAllgatherv_def Let_def Allgatherv_def Barrier_def
        MPI_call_def timeline_call_def GetMPIDataType_def GetMPICommunicator_def working_env_def
        example_state_def example_ctx_def)

text \<open>
  Claim C2 as amended: in the hierarchical allgather the cross-node \<^verbatim>\<open>Allgatherv\<close>, on
  the communicator of the scope \<open>CROSS\<close>, is issued by every rank when the cluster is
  homogeneous, and only by the ranks whose local rank is 0 when it is not; a rank with
  another local rank on a cluster that is not homogeneous issues none. (A rank that takes
  part reaches the library when both datatypes resolve.)
\<close>

theorem hierarchical_cross_stage:
  "\<exists>new.
     events (snd (MPIHierarchicalAllgather_DoAllgatherv env global_state entries sendbuf
                    sendcount sendtype recvbuf recvcounts displs recvtype s)) =
       events s @ new \<and>
     filter is_MPI_Allgatherv new =
       (if is_homogeneous global_state \<or> local_rank global_state = 0
        then (case GetMPIDataType env (mpi_ctx s) sendtype of
                Inl e \<Rightarrow> []
              | Inr mpi_sendtype \<Rightarrow>
                  (case GetMPIDataType env (mpi_ctx s) recvtype of
                     Inl e \<Rightarrow> []
                   | Inr mpi_recvtype \<Rightarrow>
                       [MPI_Allgatherv
                          (if sendbuf = nullptr then MPI_IN_PLACE else MPI_buffer sendbuf)
                          sendcount mpi_sendtype recvbuf recvcounts displs mpi_recvtype
                          (cross_comm (mpi_ctx s))]))
        else [])"
proof (cases "is_homogeneous global_state \<or> local_rank global_state = 0")
  case False
  then show ?thesis
    by (simp add: Hier_skip no_Allgatherv_simps)
next
  case True
  let ?A = "Allgatherv env sendbuf sendcount sendtype recvbuf recvcounts displs recvtype CROSS
              (timeline_call (ActivityStartAll entries MPI_CROSS_ALLGATHER) s)"
  show ?thesis
  proof (cases "fst ?A")
    case (Inl e)
    from Hier_cross_fails [OF True Inl]
    have "events (snd (MPIHierarchicalAllgather_DoAllgatherv env global_state entries sendbuf
                    sendcount sendtype recvbuf recvcounts displs recvtype s)) = events (snd ?A)"
      by simp
    with True show ?thesis
      by (simp add: Allgatherv_events events_timeline_call mpi_ctx_timeline_call
            GetMPICommunicator_def no_Allgatherv_simps split: sum.splits)
  next
    case (Inr u)
    then have "fst ?A = Inr ()" by simp
    from Hier_cross_returns [OF True this]
    obtain mpi_sendtype mpi_recvtype where
      "GetMPIDataType env (mpi_ctx s) sendtype = Inr mpi_sendtype"
      "GetMPIDataType env (mpi_ctx s) recvtype = Inr mpi_recvtype"
      "events (snd (MPIHierarchicalAllgather_DoAllgatherv env global_state entries sendbuf
             sendcount sendtype recvbuf recvcounts displs recvtype s)) =
           events s @ [ActivityStartAll entries MPI_CROSS_ALLGATHER,
                       MPI_Allgatherv (if sendbuf = nullptr then MPI_IN_PLACE else MPI_buffer sendbuf)
                         sendcount mpi_sendtype recvbuf recvcounts displs mpi_recvtype
                         (cross_comm (mpi_ctx s)),
                       MPI_Barrier (mpi_comm (mpi_ctx s))] @
             (if MPI_return env
                   (events s @ [ActivityStartAll entries MPI_CROSS_ALLGATHER,
                       MPI_Allgatherv (if sendbuf = nullptr then MPI_IN_PLACE else MPI_buffer sendbuf)
                         sendcount mpi_sendtype recvbuf recvcounts displs mpi_recvtype
                         (cross_comm (mpi_ctx s))])
                   (MPI_Barrier (mpi_comm (mpi_ctx s))) = MPI_SUCCESS
              then [ActivityEndAll entries] else [])"
      by blast
    with True show ?thesis
      by (simp add: no_Allgatherv_simps)
  qed
qed

text \<open>
  The theorem for claim C2 as amended, at three ranks: local rank 1 on a cluster that is
  not homogeneous (no cross-node call), local rank 0 on that cluster, and local rank 1 on
  a homogeneous cluster (one cross-node call each).
\<close>

theorem hierarchical_cross_stage_witness:
  "(\<exists>new.
      events (snd (MPIHierarchicalAllgather_DoAllgatherv working_env
                     \<lparr>is_homogeneous = False, local_rank = 1\<rparr> [example_entry]
                     4096 4 HOROVOD_FLOAT32 8192 [4, 4] [0, 4] HOROVOD_FLOAT32 example_state)) =
        new \<and>
      filter is_MPI_Allgatherv new = []) \<and>
   (\<exists>new.
      events (snd (MPIHierarchicalAllgather_DoAllgatherv working_env
                     \<lparr>is_homogeneous = False, local_rank = 0\<rparr> [example_entry]
                     4096 4 HOROVOD_FLOAT32 8192 [4, 4] [0, 4] HOROVOD_FLOAT32 example_state)) =
        new \<and>
      filter is_MPI_Allgatherv new =
        [MPI_Allgatherv (MPI_buffer 4096) 4 MPI_FLOAT 8192 [4, 4] [0, 4] MPI_FLOAT
           (MPI_Comm_handle 3)]) \<and>
   (\<exists>new.
      events (snd (MPIHierarchicalAllgather_DoAllgatherv working_env
                     \<lparr>is_homogeneous = True, local_rank = 1\<rparr> [example_entry]
                     4096 4 HOROVOD_FLOAT32 8192 [4, 4] [0, 4] HOROVOD_FLOAT32 example_state)) =
        new \<and>
      filter is_MPI_Allgatherv new =
        [MPI_Allgatherv (MPI_buffer 4096) 4 MPI_FLOAT 8192 [4, 4] [0, 4] MPI_FLOAT
           (MPI_Comm_handle 3)])"
  using
    hierarchical_cross_stage [of working_env "\<lparr>is_homogeneous = False, local_rank = 1\<rparr>"
      "[example_entry]" 4096 4 HOROVOD_FLOAT32 8192 "[4, 4]" "[0, 4]" HOROVOD_FLOAT32
      example_state]
    hierarchical_cross_stage [of working_env "\<lparr>is_homogeneous = False, local_rank = 0\<rparr>"
      "[example_entry]" 4096 4 HOROVOD_FLOAT32 8192 "[4, 4]" "[0, 4]" HOROVOD_FLOAT32
      example_state]
    hierarchical_cross_stage [of working_env "\<lparr>is_homogeneous = True, local_rank = 1\<rparr>"
      "[example_entry]" 4096 4 HOROVOD_FLOAT32 8192 "[4, 4]" "[0, 4]" HOROVOD_FLOAT32
      example_state]
  by (simp add: GetMPIDataType_def example_state_def example_ctx_def)

section \<open>The barrier of the hierarchical allgather (claim C6)\<close>

text \<open>
  Claim C6, as stated, fails in an execution whose cross-node \<^verbatim>\<open>Allgatherv\<close> fails: the
  exception leaves \<^verbatim>\<open>DoAllgatherv\<close> before the barrier, and the rank executes no
  barrier at all.
\<close>

theorem hierarchical_no_barrier_after_failure:
  "fst (MPIHierarchicalAllgather_DoAllgatherv failing_env
          \<lparr>is_homogeneous = True, local_rank = 0\<rparr> [example_entry]
          4096 4 HOROVOD_FLOAT32 8192 [4, 4] [0, 4] HOROVOD_FLOAT32 example_state) =
     Inl (logic_error ''MPI_Allgatherv failed, see MPI output for details.'') \<and>
   events (snd (MPIHierarchicalAllgather_DoAllgatherv failing_env
                  \<lparr>is_homogeneous = True, local_rank = 0\<rparr> [example_entry]
                  4096 4 HOROVOD_FLOAT32 8192 [4, 4] [0, 4] HOROVOD_FLOAT32 example_state)) =
     [ActivityStartAll [example_entry] MPI_CROSS_ALLGATHER,
      MPI_Allgatherv (MPI_buffer 4096) 4 MPI_FLOAT 8192 [4, 4] [0, 4] MPI_FLOAT
        (MPI_Comm_handle 3)] \<and>
   filter is_MPI_Barrier
     (events (snd (MPIHierarchicalAllgather_DoAllgatherv failing_env
                     \<lparr>is_homogeneous = True, local_rank = 0\<rparr> [example_entry]
                     4096 4 HOROVOD_FLOAT32 8192 [4, 4] [0, 4] HOROVOD_FLOAT32 example_state))) =
     []"
  by (simp add: MPIHierarchicalAllgather_DoAllgatherv_def Let_def Allgatherv_def Barrier_def
        MPI_call_def timeline_call_def GetMPIDataType_def GetMPICommunicator_def working_env_def
        failing_env_def MPI_SUCCESS_def example_state_def example_ctx_def no_Barrier_simps)

text \<open>
  Claim C6 as amended: in every execution of the hierarchical allgather in which the
  cross-node stage does not fail (the rank skips it, or its \<^verbatim>\<open>Allgatherv\<close> returns
  normally), the rank executes exactly one barrier, on the communicator of the scope
  \<open>GLOBAL\<close>, and that barrier comes after the cross-node \<^verbatim>\<open>Allgatherv\<close> of the ranks
  that issued one; nothing but the end of the timeline activity follows it.
\<close>

theorem hierarchical_barrier:
  assumes "is_homogeneous global_state \<or> local_rank global_state = 0 \<longrightarrow>
           fst (Allgatherv env sendbuf sendcount sendtype recvbuf recvcounts displs recvtype CROSS
                  (timeline_call (ActivityStartAll entries MPI_CROSS_ALLGATHER) s)) = Inr ()"
  shows "\<exists>cross fin.
           events (snd (MPIHierarchicalAllgather_DoAllgatherv env global_state entries sendbuf
                          sendcount sendtype recvbuf recvcounts displs recvtype s)) =
             events s @ [ActivityStartAll entries MPI_CROSS_ALLGATHER] @ cross @
               [MPI_Barrier (mpi_comm (mpi_ctx s))] @ fin \<and>
           (\<forall>ev \<in> set cross. is_MPI_Allgatherv ev) \<and>
           length cross =
             (if is_homogeneous global_state \<or> local_rank global_state = 0 then 1 else 0) \<and>
           (\<forall>ev \<in> set fin. ev = ActivityEndAll entries) \<and>
           filter is_MPI_Barrier
               ([ActivityStartAll entries MPI_CROSS_ALLGATHER] @ cross @
                [MPI_Barrier (mpi_comm (mpi_ctx s))] @ fin) =
             [MPI_Barrier (mpi_comm (mpi_ctx s))]"
proof (cases "is_homogeneous global_state \<or> local_rank global_state = 0")
  case False
  let ?fin = "if MPI_return env (events s @ [ActivityStartAll entries MPI_CROSS_ALLGATHER])
                   (MPI_Barrier (mpi_comm (mpi_ctx s))) = MPI_SUCCESS
              then [ActivityEndAll entries] else []"
  from False have "events (snd (MPIHierarchicalAllgather_DoAllgatherv env global_state entries
                          sendbuf sendcount sendtype recvbuf recvcounts displs recvtype s)) =
             events s @ [ActivityStartAll entries MPI_CROSS_ALLGATHER] @ [] @
               [MPI_Barrier (mpi_comm (mpi_ctx s))] @ ?fin"
    by (simp add: Hier_skip)
  moreover have "\<forall>ev \<in> set ?fin. ev = ActivityEndAll entries"
    by simp
  moreover have "filter is_MPI_Barrier
               ([ActivityStartAll entries MPI_CROSS_ALLGATHER] @ [] @
                [MPI_Barrier (mpi_comm (mpi_ctx s))] @ ?fin) =
             [MPI_Barrier (mpi_comm (mpi_ctx s))]"
    by (simp add: no_Barrier_simps)
  ultimately show ?thesis
    using False by (intro exI [of _ "[]"] exI [of _ ?fin]) simp
next
  case True
  with assms have "fst (Allgatherv env sendbuf sendcount sendtype recvbuf recvcounts displs
                     recvtype CROSS
                     (timeline_call (ActivityStartAll entries MPI_CROSS_ALLGATHER) s)) = Inr ()"
    by simp
  from Hier_cross_returns [OF True this]
  obtain mpi_sendtype mpi_recvtype where
    ev: "events (snd (MPIHierarchicalAllgather_DoAllgatherv env global_state entries sendbuf
             sendcount sendtype recvbuf recvcounts displs recvtype s)) =
           events s @ [ActivityStartAll entries MPI_CROSS_ALLGATHER,
                       MPI_Allgatherv (if sendbuf = nullptr then MPI_IN_PLACE else MPI_buffer sendbuf)
                         sendcount mpi_sendtype recvbuf recvcounts displs mpi_recvtype
                         (cross_comm (mpi_ctx s)),
                       MPI_Barrier (mpi_comm (mpi_ctx s))] @
             (if MPI_return env
                   (events s @ [ActivityStartAll entries MPI_CROSS_ALLGATHER,
                       MPI_Allgatherv (if sendbuf = nullptr then MPI_IN_PLACE else MPI_buffer sendbuf)
                         sendcount mpi_sendtype recvbuf recvcounts displs mpi_recvtype
                         (cross_comm (mpi_ctx s))])
                   (MPI_Barrier (mpi_comm (mpi_ctx s))) = MPI_SUCCESS
              then [ActivityEndAll entries] else [])"
    by blast
  let ?cross = "[MPI_Allgatherv (if sendbuf = nullptr then MPI_IN_PLACE else MPI_buffer sendbuf)
                   sendcount mpi_sendtype recvbuf recvcounts displs mpi_recvtype
                   (cross_comm (mpi_ctx s))]"
  let ?fin = "if MPI_return env (events s @ [ActivityStartAll entries MPI_CROSS_ALLGATHER] @ ?cross)
                   (MPI_Barrier (mpi_comm (mpi_ctx s))) = MPI_SUCCESS
              then [ActivityEndAll entries] else []"
  from ev have "events (snd (MPIHierarchicalAllgather_DoAllgatherv env global_state entries
                          sendbuf sendcount sendtype recvbuf recvcounts displs recvtype s)) =
             events s @ [ActivityStartAll entries MPI_CROSS_ALLGATHER] @ ?cross @
               [MPI_Barrier (mpi_comm (mpi_ctx s))] @ ?fin"
    by simp
  moreover have "\<forall>ev \<in> set ?cross. is_MPI_Allgatherv ev"
    by (simp add: no_Allgatherv_simps)
  moreover have "\<forall>ev \<in> set ?fin. ev = ActivityEndAll entries"
    by simp
  moreover have "filter is_MPI_Barrier
               ([ActivityStartAll entries MPI_CROSS_ALLGATHER] @ ?cross @
                [MPI_Barrier (mpi_comm (mpi_ctx s))] @ ?fin) =
             [MPI_Barrier (mpi_comm (mpi_ctx s))]"
    by (simp add: no_Barrier_simps)
  ultimately show ?thesis
    using True by (intro exI [of _ ?cross] exI [of _ ?fin]) simp
qed

text \<open>
  The theorem for claim C6 as amended, at a rank that takes part (its cross-node stage
  returns normally) and at a rank that skips the stage: one barrier each, on the global
  communicator.
\<close>

theorem hierarchical_barrier_witness:
  "fst (Allgatherv working_env 4096 4 HOROVOD_FLOAT32 8192 [4, 4] [0, 4] HOROVOD_FLOAT32 CROSS
          (timeline_call (ActivityStartAll [example_entry] MPI_CROSS_ALLGATHER) example_state)) =
     Inr () \<and>
   filter is_MPI_Barrier
     (events (snd (MPIHierarchicalAllgather_DoAllgatherv working_env
                     \<lparr>is_homogeneous = True, local_rank = 1\<rparr> [example_entry]
                     4096 4 HOROVOD_FLOAT32 8192 [4, 4] [0, 4] HOROVOD_FLOAT32 example_state))) =
     [MPI_Barrier (MPI_Comm_handle 1)] \<and>
   filter is_MPI_Barrier
     (events (snd (MPIHierarchicalAllgather_DoAllgatherv working_env
                     \<lparr>is_homogeneous = False, local_rank = 1\<rparr> [example_entry]
                     4096 4 HOROVOD_FLOAT32 8192 [4, 4] [0, 4] HOROVOD_FLOAT32 example_state))) =
     [MPI_Barrier (MPI_Comm_handle 1)]"
proof -
  have returns:
    "fst (Allgatherv working_env 4096 4 HOROVOD_FLOAT32 8192 [4, 4] [0, 4] HOROVOD_FLOAT32 CROSS
          (timeline_call (ActivityStartAll [example_entry] MPI_CROSS_ALLGATHER) example_state)) =
     Inr ()"
    by (simp add: Allgatherv_def MPI_call_def timeline_call_def GetMPIDataType_def
          GetMPICommunicator_def working_env_def)
  have start: "events example_state = []"
    and global: "mpi_comm (mpi_ctx example_state) = MPI_Comm_handle 1"
    by (simp_all add: example_state_def example_ctx_def)
  from hierarchical_barrier [of "\<lparr>is_homogeneous = True, local_rank = 1\<rparr>" working_env
         4096 4 HOROVOD_FLOAT32 8192 "[4, 4]" "[0, 4]" HOROVOD_FLOAT32 "[example_entry]"
         example_state] returns
  have participating: "filter is_MPI_Barrier
     (events (snd (MPIHierarchicalAllgather_DoAllgatherv working_env
                     \<lparr>is_homogeneous = True, local_rank = 1\<rparr> [example_entry]
                     4096 4 HOROVOD_FLOAT32 8192 [4, 4] [0, 4] HOROVOD_FLOAT32 example_state))) =
     [MPI_Barrier (MPI_Comm_handle 1)]"
    unfolding start global by auto
  from hierarchical_barrier [of "\<lparr>is_homogeneous = False, local_rank = 1\<rparr>" working_env
         4096 4 HOROVOD_FLOAT32 8192 "[4, 4]" "[0, 4]" HOROVOD_FLOAT32 "[example_entry]"
         example_state]
  have skipping: "filter is_MPI_Barrier
     (events (snd (MPIHierarchicalAllgather_DoAllgatherv working_env
                     \<lparr>is_homogeneous = False, local_rank = 1\<rparr> [example_entry]
                     4096 4 HOROVOD_FLOAT32 8192 [4, 4] [0, 4] HOROVOD_FLOAT32 example_state))) =
     [MPI_Barrier (MPI_Comm_handle 1)]"
    unfolding start global by auto
  from returns participating skipping show ?thesis
    by simp
qed

end
